theory Spec2Isabelle
  imports Complex_Main "HOL-Library.Word" "HOL-Library.Stream"
begin

section \<open>Data model\<close>

text \<open>
  The development covers \<^verbatim>\<open>pymodbus/client/tcp.py\<close> (the synchronous and the
  asynchronous TCP client) and \<^verbatim>\<open>examples/server_sync.py\<close>.

  Bytes objects are lists of octets. Points in time and durations (the floats of
  \<^verbatim>\<open>time.time()\<close> and of the \<^verbatim>\<open>timeout\<close> parameter) are exact numbers of
  seconds. A socket object is identified by its descriptor.

  An exception is a value of \<open>error\<close>; its message text and the log lines are left
  out. The exceptions are those that the source raises or catches itself; an
  OSError that \<^verbatim>\<open>select\<close>, \<^verbatim>\<open>sock.send\<close> or \<^verbatim>\<open>sock.recv\<close> could raise, and that
  the source lets through, is not an answer of the operating system here.
\<close>

type_synonym byte = "8 word"
type_synonym bytes = "byte list"
type_synonym sock = nat

datatype error = ConnectionException | ValueError | UnboundLocalError

datatype framer =
    ModbusSocketFramer
  | ModbusRtuFramer
  | ModbusAsciiFramer
  | ModbusBinaryFramer
  | ModbusTlsFramer

datatype ModbusTransactionState =
    IDLE
  | SENDING
  | WAITING_FOR_REPLY
  | WAITING_TURNAROUND_DELAY
  | PROCESSING_REPLY
  | PROCESSING_ERROR
  | TRANSACTION_COMPLETE
  | RETRYING
  | NO_RESPONSE_STATE

record params =
  host :: string
  port :: int
  source_address :: "(string \<times> int) option"
  timeout :: real

text \<open>
  The attributes that \<^verbatim>\<open>ModbusBaseClient\<close> owns and that the TCP clients read:
  the parameter block, the framer and the transaction state.
\<close>

record base_client =
  params :: params
  framer :: framer
  state :: ModbusTransactionState

record client = base_client +
  socket :: "sock option"
  use_sync :: bool

section \<open>The operating system\<close>

text \<open>
  The world outside the client is a record of oracles and logs. Each oracle is the
  stream of answers that the operating system will give to the successive calls of
  one kind; each log collects what the client handed to the operating system.
\<close>

datatype select_outcome = Readable | NotReadable | SelectValueError

record world =
  clock :: "real stream"
  selects :: "select_outcome stream"
  incoming :: "bytes stream"
  accepts :: "nat stream"
  creations :: "sock option stream"
  connections :: "bool stream"
  send_log :: "(sock \<times> bytes) list"
  recv_log :: "bytes list"
  select_log :: "real list"
  close_log :: "sock list"
  nonblocking :: "sock list"

text \<open>\<^verbatim>\<open>time.time()\<close>: the next reading of the clock.\<close>

definition time_time :: "world \<Rightarrow> real \<times> world" where
  "time_time w = (shd (clock w), w\<lparr>clock := stl (clock w)\<rparr>)"

text \<open>
  \<^verbatim>\<open>select.select([sock], [], [], t)\<close>: the timeout of every call is logged, since
  it is how long the call may block. A negative timeout raises ValueError at once;
  otherwise the operating system answers, and its answer may itself be ValueError
  (the descriptor is no longer valid).
\<close>

definition select_select :: "world \<Rightarrow> real \<Rightarrow> select_outcome \<times> world" where
  "select_select w t =
     (if t < 0 then (SelectValueError, w\<lparr>select_log := select_log w @ [t]\<rparr>)
      else (shd (selects w),
            w\<lparr>selects := stl (selects w), select_log := select_log w @ [t]\<rparr>))"

text \<open>
  \<^verbatim>\<open>sock.recv(n)\<close> on a readable socket: at most \<open>n\<close> octets of what is
  pending; the rest stays pending. The empty chunk is the end of the stream.
\<close>

definition socket_recv :: "world \<Rightarrow> nat \<Rightarrow> bytes \<times> world" where
  "socket_recv w n =
     (let chunk = shd (incoming w);
          rest = drop n chunk;
          got = take n chunk
      in (got, w\<lparr>incoming := (if rest = [] then stl (incoming w)
                                else rest ## stl (incoming w)),
                   recv_log := recv_log w @ [got]\<rparr>))"

text \<open>
  \<^verbatim>\<open>sock.send(request)\<close>: one call, logged with its buffer; the operating system
  accepts a prefix and reports its length.
\<close>

definition socket_send :: "world \<Rightarrow> sock \<Rightarrow> bytes \<Rightarrow> nat \<times> world" where
  "socket_send w s request =
     (min (length request) (shd (accepts w)),
      w\<lparr>accepts := stl (accepts w), send_log := send_log w @ [(s, request)]\<rparr>)"

definition socket_close :: "world \<Rightarrow> sock \<Rightarrow> world" where
  "socket_close w s = w\<lparr>close_log := close_log w @ [s]\<rparr>"

definition socket_setblocking0 :: "world \<Rightarrow> sock \<Rightarrow> world" where
  "socket_setblocking0 w s = w\<lparr>nonblocking := nonblocking w @ [s]\<rparr>"

section \<open>ModbusTcpClient\<close>

subsection \<open>connected, is\_socket\_open, close\<close>

definition connected :: "client \<Rightarrow> bool" where
  "connected c = (socket c \<noteq> None)"

definition is_socket_open :: "client \<Rightarrow> bool" where
  "is_socket_open c = (socket c \<noteq> None)"

text \<open>
  \<^verbatim>\<open>close\<close>: a socket object is always truthy, so \<^verbatim>\<open>if self.socket\<close> is the
  test for \<open>None\<close>.
\<close>

definition close :: "client \<Rightarrow> world \<Rightarrow> client \<times> world" where
  "close c w =
     (let w1 = (case socket c of Some s \<Rightarrow> socket_close w s | None \<Rightarrow> w)
      in (c\<lparr>socket := None\<rparr>, w1))"

subsection \<open>connect\<close>





subsection \<open>send\<close>

text \<open>
  \<^verbatim>\<open>_check_read_buffer\<close>: the ValueError of \<^verbatim>\<open>select\<close> is not caught here.
\<close>

definition check_read_buffer :: "client \<Rightarrow> world \<Rightarrow> (error + bytes option) \<times> world" where
  "check_read_buffer c w =
     (let (time', w1) = time_time w;
          endt = time' + timeout (params c)
      in case select_select w1 (endt - time') of
           (SelectValueError, w2) \<Rightarrow> (Inl ValueError, w2)
         | (Readable, w2) \<Rightarrow>
             (let (d, w3) = socket_recv w2 1024 in (Inr (Some d), w3))
         | (NotReadable, w2) \<Rightarrow> (Inr None, w2))"

text \<open>
  \<^verbatim>\<open>send\<close> returns the pending data found by \<^verbatim>\<open>_check_read_buffer\<close> or the
  count reported by the socket.

  \<^verbatim>\<open>ModbusBaseClient.send\<close> and \<^verbatim>\<open>ModbusBaseClient.recv\<close>, which the methods
  call first through \<^verbatim>\<open>super()\<close>, are not part of the sources under study; they
  are the parameters \<open>base_send\<close> and \<open>base_recv\<close>, any update of the client object.

  The two definitions below are the instances that the library supplies: the base
  \<^verbatim>\<open>send\<close> marks a transaction that is not a retry as SENDING and touches nothing
  else, and the base \<^verbatim>\<open>recv\<close> does nothing.
\<close>

definition ModbusBaseClient_send :: "client \<Rightarrow> bytes \<Rightarrow> client" where
  "ModbusBaseClient_send c request =
     (if state c \<noteq> RETRYING then c\<lparr>state := SENDING\<rparr> else c)"

definition ModbusBaseClient_recv :: "client \<Rightarrow> int option \<Rightarrow> client" where
  "ModbusBaseClient_recv c sz = c"

datatype send_result = Count nat | Data bytes

definition send ::
  "(client \<Rightarrow> bytes \<Rightarrow> client) \<Rightarrow> client \<Rightarrow> bytes \<Rightarrow> world
     \<Rightarrow> (error + send_result) \<times> client \<times> world" where
  "send base_send c0 request w =
     (let c = base_send c0 request in
      case socket c of
        None \<Rightarrow> (Inl ConnectionException, c, w)
      | Some s \<Rightarrow>
          (let (found, w1) =
             (if state c = RETRYING then check_read_buffer c w else (Inr None, w))
           in case found of
                Inl e \<Rightarrow> (Inl e, c, w1)
              | Inr (Some (b # bs)) \<Rightarrow> (Inr (Data (b # bs)), c, w1)
              | Inr _ \<Rightarrow>
                  (if request \<noteq> [] then
                     (let (n, w2) = socket_send w1 s request in (Inr (Count n), c, w2))
                   else (Inr (Count 0), c, w1))))"

subsection \<open>recv\<close>

definition handle_abrupt_socket_close ::
  "client \<Rightarrow> int option \<Rightarrow> bytes list \<Rightarrow> real \<Rightarrow> world
     \<Rightarrow> (error + bytes) \<times> client \<times> world" where
  "handle_abrupt_socket_close c sz data duration w =
     (let (c1, w1) = close c w in
      if data \<noteq> [] then (Inr (concat data), c1, w1)
      else (Inl ConnectionException, c1, w1))"

text \<open>The variables of the read loop.\<close>

record recv_vars =
  recv_size :: int
  data :: "bytes list"
  data_length :: int
  time' :: real

text \<open>
  One pass through the body of the \<^verbatim>\<open>while\<close> loop: either the method returns
  (\<open>Inl\<close>: one of the two abrupt closes, or the \<^verbatim>\<open>break\<close> followed by the final
  join), or the loop goes back to its test with new variables (\<open>Inr\<close>).
\<close>

definition recv_body ::
  "client \<Rightarrow> int option \<Rightarrow> real \<Rightarrow> recv_vars \<Rightarrow> world
     \<Rightarrow> ((error + bytes) \<times> client \<times> world) + (recv_vars \<times> world)" where
  "recv_body c sz endt v w =
     (case select_select w (endt - time' v) of
        (SelectValueError, w1) \<Rightarrow>
          (let (t, w2) = time_time w1
           in Inl (handle_abrupt_socket_close c sz (data v) (t - time' v) w2))
      | (ready, w1) \<Rightarrow>
          (let (got, w2) =
             (if ready = Readable then
                (let (recv_data, w2) = socket_recv w1 (nat (recv_size v))
                 in (Some recv_data, w2))
              else (None, w1))
           in if got = Some [] then
                (let (t, w3) = time_time w2
                 in Inl (handle_abrupt_socket_close c sz (data v) (t - time' v) w3))
              else
                (let data' = (case got of Some d \<Rightarrow> data v @ [d] | None \<Rightarrow> data v);
                     data_length' =
                       (case got of Some d \<Rightarrow> data_length v + int (length d)
                                  | None \<Rightarrow> data_length v);
                     (t', w3) = time_time w2;
                     recv_size' =
                       (case sz of
                          Some k \<Rightarrow> if k \<noteq> 0 then k - data_length' else recv_size v
                        | None \<Rightarrow> recv_size v);
                     v' = \<lparr>recv_size = recv_size', data = data',
                           data_length = data_length', time' = t'\<rparr>
                 in if t' > endt then Inl (Inr (concat data'), c, w3)
                    else Inr (v', w3))))"

partial_function (option) recv_loop ::
  "client \<Rightarrow> int option \<Rightarrow> real \<Rightarrow> recv_vars \<Rightarrow> world
     \<Rightarrow> ((error + bytes) \<times> client \<times> world) option" where
  "recv_loop c sz endt v w =
     (if recv_size v > 0 then
        (case recv_body c sz endt v w of
           Inl r \<Rightarrow> Some r
         | Inr (v', w') \<Rightarrow> recv_loop c sz endt v' w')
      else Some (Inr (concat (data v)), c, w))"

text \<open>The statements of \<^verbatim>\<open>recv\<close> between the socket test and the loop.\<close>

definition recv_init :: "client \<Rightarrow> sock \<Rightarrow> int option \<Rightarrow> world \<Rightarrow> real \<times> recv_vars \<times> world" where
  "recv_init c s sz w =
     (let w1 = socket_setblocking0 w s;
          tmo = timeout (params c);
          recv_size0 = (case sz of None \<Rightarrow> 4096 | Some k \<Rightarrow> k);
          (t, w2) = time_time w1;
          endt = t + tmo
      in (endt, \<lparr>recv_size = recv_size0, data = [], data_length = 0, time' = t\<rparr>, w2))"

definition recv ::
  "(client \<Rightarrow> int option \<Rightarrow> client) \<Rightarrow> client \<Rightarrow> int option \<Rightarrow> world
     \<Rightarrow> ((error + bytes) \<times> client \<times> world) option" where
  "recv base_recv c0 sz w =
     (let c = base_recv c0 sz in
      case socket c of
        None \<Rightarrow> Some (Inl ConnectionException, c, w)
      | Some s \<Rightarrow>
          (case recv_init c s sz w of (endt, v, w1) \<Rightarrow> recv_loop c sz endt v w1))"

text \<open>
  The variables and the world at the loop test after \<open>n\<close> complete passes, when the
  loop is still running then.
\<close>

fun recv_iterate ::
  "nat \<Rightarrow> client \<Rightarrow> int option \<Rightarrow> real \<Rightarrow> recv_vars \<Rightarrow> world \<Rightarrow> (recv_vars \<times> world) option" where
  "recv_iterate 0 c sz endt v w = Some (v, w)"
| "recv_iterate (Suc n) c sz endt v w =
     (if recv_size v > 0 then
        (case recv_body c sz endt v w of
           Inl r \<Rightarrow> None
         | Inr (v', w') \<Rightarrow> recv_iterate n c sz endt v' w')
      else None)"

text \<open>
  What the loop maintains between passes: the next read asks for what is still
  missing (4096 octets when no size was given), and \<open>data_length\<close> is the number
  of octets in \<open>data\<close>.
\<close>

definition recv_inv :: "int option \<Rightarrow> recv_vars \<Rightarrow> bool" where
  "recv_inv sz v \<longleftrightarrow>
     recv_size v = (case sz of None \<Rightarrow> 4096 | Some k \<Rightarrow> k - data_length v) \<and>
     data_length v = int (length (concat (data v)))"

section \<open>The constructors\<close>

text \<open>
  \<^verbatim>\<open>ModbusBaseClient.__init__\<close> is not part of the sources under study: it is the
  parameter \<open>base_init\<close>, which receives the framer class and the keyword arguments
  and builds the base attributes. An omitted optional argument is \<open>None\<close> and takes
  the default of the signature. The keyword arguments are a dictionary.
\<close>

type_synonym 'v kwargs = "string \<rightharpoonup> 'v"

definition ModbusTcpClient_init ::
  "(framer \<Rightarrow> 'v kwargs \<Rightarrow> base_client) \<Rightarrow> string \<Rightarrow> int option \<Rightarrow> framer option
     \<Rightarrow> (string \<times> int) option \<Rightarrow> 'v kwargs \<Rightarrow> client" where
  "ModbusTcpClient_init base_init host_arg port_arg framer_arg source_address_arg kwargs =
     (let port_v = (case port_arg of None \<Rightarrow> 502 | Some p \<Rightarrow> p);
          framer_v = (case framer_arg of None \<Rightarrow> ModbusSocketFramer | Some f \<Rightarrow> f);
          b = base_init framer_v kwargs;
          ps = (params b)\<lparr>host := host_arg, port := port_v,
                            source_address := source_address_arg\<rparr>
      in \<lparr>params = ps, framer = framer b, state = state b,
          socket = None, use_sync = True\<rparr>)"

datatype transport_setup = setup_unix bool string | setup_tcp bool string int

record async_client = base_client +
  new_transport :: "transport_setup option"

definition AsyncModbusTcpClient_init ::
  "(framer \<Rightarrow> 'v kwargs \<Rightarrow> base_client) \<Rightarrow> string \<Rightarrow> int option \<Rightarrow> framer option
     \<Rightarrow> (string \<times> int) option \<Rightarrow> 'v kwargs \<Rightarrow> async_client" where
  "AsyncModbusTcpClient_init base_init host_arg port_arg framer_arg source_address_arg kwargs =
     (let port_v = (case port_arg of None \<Rightarrow> 502 | Some p \<Rightarrow> p);
          framer_v = (case framer_arg of None \<Rightarrow> ModbusSocketFramer | Some f \<Rightarrow> f);
          b = base_init framer_v kwargs;
          ps = (params b)\<lparr>host := host_arg, port := port_v,
                            source_address := source_address_arg\<rparr>
      in \<lparr>params = ps, framer = framer b, state = state b,
          new_transport =
            (if kwargs ''internal_no_setup'' \<noteq> None then None
             else if take 5 host_arg = ''unix:'' then Some (setup_unix False (drop 5 host_arg))
             else Some (setup_tcp False host_arg port_v))\<rparr>)"

section \<open>The synchronous example server\<close>

text \<open>
  The attributes of \<^verbatim>\<open>args\<close> that \<^verbatim>\<open>run_sync_server\<close> reads. The port is a number
  for the network transports and a device name for the serial one; Python tests it
  for truth.
\<close>

datatype pyval = PyNone | PyInt int | PyStr string

fun truthy :: "pyval \<Rightarrow> bool" where
  "truthy PyNone = False"
| "truthy (PyInt i) = (i \<noteq> 0)"
| "truthy (PyStr s) = (s \<noteq> [])"

record ('ctx, 'idt) args =
  args_comm :: string
  args_framer :: framer
  args_port :: pyval
  args_context :: 'ctx
  args_identity :: 'idt
  args_baudrate :: pyval

text \<open>
  The four start functions of \<^verbatim>\<open>pymodbus.server\<close> are not part of the sources under
  study; a call is the value of its keyword arguments, in the order of the source.
\<close>

datatype ('ctx, 'idt) server =
    StartTcpServer 'ctx 'idt "(string \<times> pyval) option" framer bool
  | StartUdpServer 'ctx 'idt "(string \<times> pyval) option" framer
  | StartSerialServer 'ctx 'idt pyval framer pyval
  | StartTlsServer 'ctx string 'idt "(string \<times> pyval) option" framer bool string string

fun server_framer :: "('ctx, 'idt) server \<Rightarrow> framer" where
  "server_framer (StartTcpServer ctx idt address f reuse) = f"
| "server_framer (StartUdpServer ctx idt address f) = f"
| "server_framer (StartSerialServer ctx idt prt f baud) = f"
| "server_framer (StartTlsServer ctx h idt address f reuse certfile keyfile) = f"

text \<open>The value of \<^verbatim>\<open>--comm\<close> that leads to each start function.\<close>

fun server_comm :: "('ctx, 'idt) server \<Rightarrow> string" where
  "server_comm (StartTcpServer ctx idt address f reuse) = ''tcp''"
| "server_comm (StartUdpServer ctx idt address f) = ''udp''"
| "server_comm (StartSerialServer ctx idt prt f baud) = ''serial''"
| "server_comm (StartTlsServer ctx h idt address f reuse certfile keyfile) = ''tls''"

text \<open>
  \<^verbatim>\<open>helper.get_certificate\<close> is a parameter. When \<^verbatim>\<open>args.comm\<close> is none of the four
  names, \<^verbatim>\<open>server\<close> is never bound and the \<^verbatim>\<open>return\<close> raises UnboundLocalError.
\<close>

definition run_sync_server ::
  "(string \<Rightarrow> string) \<Rightarrow> ('ctx, 'idt) args \<Rightarrow> error + ('ctx, 'idt) server" where
  "run_sync_server get_certificate a =
     (if args_comm a = ''tcp'' then
        (let address = (if truthy (args_port a) then Some ([], args_port a) else None)
         in Inr (StartTcpServer (args_context a) (args_identity a) address (args_framer a) True))
      else if args_comm a = ''udp'' then
        (let address = (if truthy (args_port a) then Some (''127.0.0.1'', args_port a) else None)
         in Inr (StartUdpServer (args_context a) (args_identity a) address (args_framer a)))
      else if args_comm a = ''serial'' then
        Inr (StartSerialServer (args_context a) (args_identity a) (args_port a)
               (args_framer a) (args_baudrate a))
      else if args_comm a = ''tls'' then
        (let address = (if truthy (args_port a) then Some ([], args_port a) else None)
         in Inr (StartTlsServer (args_context a) ''localhost'' (args_identity a) address
                   (args_framer a) True (get_certificate ''crt'') (get_certificate ''key'')))
      else Inl UnboundLocalError)"

section \<open>Sample clients and worlds\<close>

text \<open>
  A client for \<^verbatim>\<open>localhost:502\<close> with a timeout of three seconds, and a world given
  by its clock, its select answers and its incoming chunks. \<open>unchanged\<close> is a base
  method that leaves the client as it is.
\<close>

definition sample_client :: "sock option \<Rightarrow> ModbusTransactionState \<Rightarrow> client" where
  "sample_client so st =
     \<lparr>params = \<lparr>host = ''localhost'', port = 502, source_address = None, timeout = 3\<rparr>,
      framer = ModbusSocketFramer, state = st, socket = so, use_sync = True\<rparr>"

definition sample_world ::
  "real stream \<Rightarrow> select_outcome stream \<Rightarrow> bytes stream \<Rightarrow> world" where
  "sample_world ck sl inc =
     \<lparr>clock = ck, selects = sl, incoming = inc, accepts = sconst 1024,
      creations = sconst (Some 7), connections = sconst True,
      send_log = [], recv_log = [], select_log = [], close_log = [], nonblocking = []\<rparr>"

definition unchanged :: "client \<Rightarrow> 'a \<Rightarrow> client" where
  "unchanged c x = c"


definition sample_args :: "string \<Rightarrow> framer \<Rightarrow> pyval \<Rightarrow> (unit, unit) args" where
  "sample_args cm f p =
     \<lparr>args_comm = cm, args_framer = f, args_port = p, args_context = (),
      args_identity = (), args_baudrate = PyInt 9600\<rparr>"

text \<open>A base initialiser that keeps the framer class it is given.\<close>

definition sample_base_init :: "framer \<Rightarrow> unit kwargs \<Rightarrow> base_client" where
  "sample_base_init f kw =
     \<lparr>params = \<lparr>host = [], port = 0, source_address = None, timeout = 3\<rparr>,
      framer = f, state = IDLE\<rparr>"

section \<open>Properties\<close>

subsection \<open>The open state and close\<close>

text \<open>
  Claim C6. \<^verbatim>\<open>is_socket_open()\<close> and the \<^verbatim>\<open>connected\<close> property are true exactly
  when the client holds a socket; after \<^verbatim>\<open>close()\<close> both are false, whatever the
  client was before; and \<^verbatim>\<open>close()\<close> on a client without a socket changes neither
  the client nor the world (no descriptor is closed a second time).
\<close>

theorem close_open_state_consistent:
  "is_socket_open c = (socket c \<noteq> None) \<and>
   connected c = (socket c \<noteq> None) \<and>
   \<not> is_socket_open (fst (close c w)) \<and>
   \<not> connected (fst (close c w)) \<and>
   close (fst (close c w)) w' = (fst (close c w), w') \<and>
   close (c\<lparr>socket := None\<rparr>) w = (c\<lparr>socket := None\<rparr>, w)"
  by (simp add: is_socket_open_def connected_def close_def)

subsection \<open>The read loop\<close>

text \<open>Passes that go back to the loop test do not change what the loop returns.\<close>

lemma recv_loop_iterate:
  "recv_iterate n c sz endt v w = Some (v', w') \<Longrightarrow>
   recv_loop c sz endt v w = recv_loop c sz endt v' w'"
proof (induction n arbitrary: v w)
  case 0
  then show ?case by simp
next
  case (Suc n)
  then show ?case
    by (subst recv_loop.simps) (auto split: if_splits sum.splits prod.splits)
qed

lemma recv_body_continue:
  assumes "recv_body c sz endt v w = Inr (v', w')"
  shows "close_log w' = close_log w \<and> send_log w' = send_log w \<and>
         nonblocking w' = nonblocking w \<and> clock w' = stl (clock w) \<and>
         time' v' = shd (clock w) \<and> time' v' \<le> endt \<and>
         (\<exists>chunks. recv_log w' = recv_log w @ chunks \<and> data v' = data v @ chunks \<and>
                   [] \<notin> set chunks \<and>
                   data_length v' = data_length v + int (length (concat chunks)))"
  using assms
  by (auto simp: recv_body_def select_select_def time_time_def socket_recv_def Let_def
           split: if_splits prod.splits select_outcome.splits option.splits)

lemma recv_iterate_frame:
  "recv_iterate n c sz endt v w = Some (v', w') \<Longrightarrow>
   close_log w' = close_log w \<and> send_log w' = send_log w \<and>
   nonblocking w' = nonblocking w \<and> clock w' = sdrop n (clock w) \<and>
   (\<exists>chunks. recv_log w' = recv_log w @ chunks \<and> data v' = data v @ chunks \<and>
             [] \<notin> set chunks)"
proof (induction n arbitrary: v w)
  case 0
  then show ?case by simp
next
  case (Suc n)
  from Suc.prems obtain v1 w1 where
    b: "recv_body c sz endt v w = Inr (v1, w1)" and
    r: "recv_iterate n c sz endt v1 w1 = Some (v', w')"
    by (auto split: if_splits sum.splits prod.splits)
  from recv_body_continue[OF b] obtain ch1 where
    s1: "close_log w1 = close_log w" "send_log w1 = send_log w"
        "nonblocking w1 = nonblocking w" "clock w1 = stl (clock w)"
        "recv_log w1 = recv_log w @ ch1" "data v1 = data v @ ch1" "[] \<notin> set ch1"
    by auto
  from Suc.IH[OF r] obtain ch2 where
    s2: "close_log w' = close_log w1" "send_log w' = send_log w1"
        "nonblocking w' = nonblocking w1" "clock w' = sdrop n (clock w1)"
        "recv_log w' = recv_log w1 @ ch2" "data v' = data v1 @ ch2" "[] \<notin> set ch2"
    by auto
  have "recv_log w' = recv_log w @ (ch1 @ ch2) \<and> data v' = data v @ (ch1 @ ch2) \<and>
        [] \<notin> set (ch1 @ ch2)"
    using s1 s2 by simp
  then have "\<exists>chunks. recv_log w' = recv_log w @ chunks \<and> data v' = data v @ chunks \<and>
        [] \<notin> set chunks"
    by (rule exI)
  then show ?case using s1 s2 by simp
qed

text \<open>
  Claim C1. Take any point of a call of \<^verbatim>\<open>recv\<close> on an open client: the loop has
  made \<open>n\<close> passes and is at its test with variables \<open>v\<close>. If it enters the body,
  \<^verbatim>\<open>select\<close> reports the socket readable and the read yields the empty chunk, then
  \<^verbatim>\<open>recv\<close> returns at once, the client holds no socket any more and the descriptor
  has been closed. With nothing accumulated the outcome is ConnectionException; with
  something accumulated it is exactly the accumulated chunks, joined. The chunks in
  \<open>data\<close> are the reads of this call, and \<open>data\<close> is empty exactly when no octet
  was accumulated.
\<close>

theorem recv_remote_close:
  assumes opn: "socket (base_recv c0 sz) = Some s"
      and ini: "recv_init (base_recv c0 sz) s sz w = (endt, v0, w0)"
      and run: "recv_iterate n (base_recv c0 sz) sz endt v0 w0 = Some (v, w1)"
      and pos: "0 < recv_size v"
      and sel: "select_select w1 (endt - time' v) = (Readable, w2)"
      and eof: "shd (incoming w2) = []"
  shows "\<exists>w'. recv base_recv c0 sz w =
           Some (if data v = [] then Inl ConnectionException else Inr (concat (data v)),
                 (base_recv c0 sz)\<lparr>socket := None\<rparr>, w') \<and>
              close_log w' = close_log w @ [s] \<and>
              recv_log w' = recv_log w @ data v @ [[]] \<and>
              send_log w' = send_log w \<and>
              (data v = [] \<longleftrightarrow> concat (data v) = [])"
proof -
  let ?c = "base_recv c0 sz"
  have loop: "recv base_recv c0 sz w = recv_loop ?c sz endt v w1"
    using opn ini recv_loop_iterate[OF run] by (simp add: recv_def)
  from recv_iterate_frame[OF run] obtain chunks where
    fr: "close_log w1 = close_log w0" "send_log w1 = send_log w0"
        "recv_log w1 = recv_log w0 @ chunks" "data v = data v0 @ chunks" "[] \<notin> set chunks"
    by auto
  have i0: "close_log w0 = close_log w" "send_log w0 = send_log w" "recv_log w0 = recv_log w"
       "data v0 = []"
    using ini by (auto simp: recv_init_def socket_setblocking0_def time_time_def Let_def)
  have w2: "close_log w2 = close_log w1" "send_log w2 = send_log w1" "recv_log w2 = recv_log w1"
    using sel by (auto simp: select_select_def split: if_splits)
  let ?w' = "snd (snd (handle_abrupt_socket_close ?c sz (data v) 0 (snd (time_time (snd (socket_recv w2 (nat (recv_size v))))))))"
  have body: "recv_body ?c sz endt v w1 =
      Inl (if data v = [] then Inl ConnectionException else Inr (concat (data v)),
           ?c\<lparr>socket := None\<rparr>, ?w')"
    using sel eof
    by (simp add: recv_body_def socket_recv_def time_time_def handle_abrupt_socket_close_def
         close_def Let_def)
  have res: "recv_loop ?c sz endt v w1 =
      Some (if data v = [] then Inl ConnectionException else Inr (concat (data v)),
           ?c\<lparr>socket := None\<rparr>, ?w')"
    using pos body by (subst recv_loop.simps) simp
  have logs: "close_log ?w' = close_log w @ [s]" "recv_log ?w' = recv_log w @ data v @ [[]]"
     "send_log ?w' = send_log w"
    using opn eof fr i0 w2
    by (simp_all add: socket_recv_def time_time_def handle_abrupt_socket_close_def
         close_def socket_close_def Let_def)
  have ne: "data v = [] \<longleftrightarrow> concat (data v) = []"
    using fr i0 by (cases "data v") auto
  show ?thesis
    unfolding loop res
    by (rule exI[of _ ?w']) (simp only: logs ne simp_thms)
qed

text \<open>
  Two runs of C1 on the sample client with a size of 8 and a clock that stands still:
  the remote end sends two octets and closes, and the remote end closes at once.
\<close>

theorem recv_remote_close_witness:
  "(\<exists>w'. recv unchanged (sample_client (Some 3) IDLE) (Some 8)
           (sample_world (sconst 0) (sconst Readable) ([1, 2] ## sconst [])) =
         Some (Inr [1, 2], (sample_client (Some 3) IDLE)\<lparr>socket := None\<rparr>, w') \<and>
         close_log w' = [3] \<and> recv_log w' = [[1, 2], []] \<and> send_log w' = []) \<and>
   (\<exists>w'. recv unchanged (sample_client (Some 3) IDLE) (Some 8)
           (sample_world (sconst 0) (sconst Readable) (sconst [])) =
         Some (Inl ConnectionException, (sample_client (Some 3) IDLE)\<lparr>socket := None\<rparr>, w') \<and>
         close_log w' = [3] \<and> recv_log w' = [[]] \<and> send_log w' = [])"
proof -
  let ?c = "sample_client (Some 3) IDLE"
  let ?wa = "sample_world (sconst 0) (sconst Readable) ([1, 2] ## sconst [])"
  let ?wb = "sample_world (sconst 0) (sconst Readable) (sconst [])"
  let ?v0 = "\<lparr>recv_size = 8, data = [], data_length = 0, time' = 0\<rparr>"
  let ?v1 = "\<lparr>recv_size = 6, data = [[1, 2]], data_length = 2, time' = 0\<rparr>"
  let ?wa1 = "?wa\<lparr>incoming := sconst [], recv_log := [[1, 2]], select_log := [3],
                   nonblocking := [3]\<rparr>"
  let ?wa2 = "?wa\<lparr>incoming := sconst [], recv_log := [[1, 2]], select_log := [3, 3],
                   nonblocking := [3]\<rparr>"
  let ?wb2 = "?wb\<lparr>select_log := [3], nonblocking := [3]\<rparr>"
  have opn: "socket (unchanged ?c (Some (8::int))) = Some 3"
    by (simp add: unchanged_def sample_client_def)
  have inia: "recv_init (unchanged ?c (Some (8::int))) 3 (Some 8) ?wa = (3, ?v0, ?wa\<lparr>nonblocking := [3]\<rparr>)"
    by (simp add: recv_init_def unchanged_def sample_client_def sample_world_def
          socket_setblocking0_def time_time_def Let_def)
  have runa: "recv_iterate (Suc 0) (unchanged ?c (Some (8::int))) (Some 8) 3 ?v0 (?wa\<lparr>nonblocking := [3]\<rparr>)
                = Some (?v1, ?wa1)"
    by (simp add: recv_body_def sample_world_def select_select_def socket_recv_def
          time_time_def Let_def)
  have sela: "select_select ?wa1 (3 - time' ?v1) = (Readable, ?wa2)"
    by (simp add: select_select_def sample_world_def)
  have eofa: "shd (incoming ?wa2) = []"
    by (simp add: sample_world_def)
  have inib: "recv_init (unchanged ?c (Some (8::int))) 3 (Some 8) ?wb = (3, ?v0, ?wb\<lparr>nonblocking := [3]\<rparr>)"
    by (simp add: recv_init_def unchanged_def sample_client_def sample_world_def
          socket_setblocking0_def time_time_def Let_def)
  have runb: "recv_iterate 0 (unchanged ?c (Some (8::int))) (Some 8) 3 ?v0 (?wb\<lparr>nonblocking := [3]\<rparr>)
                = Some (?v0, ?wb\<lparr>nonblocking := [3]\<rparr>)"
    by simp
  have selb: "select_select (?wb\<lparr>nonblocking := [3]\<rparr>) (3 - time' ?v0) = (Readable, ?wb2)"
    by (simp add: select_select_def sample_world_def)
  have eofb: "shd (incoming ?wb2) = []"
    by (simp add: sample_world_def)
  have a: "\<exists>w'. recv unchanged ?c (Some 8) ?wa =
         Some (Inr [1, 2], ?c\<lparr>socket := None\<rparr>, w') \<and>
         close_log w' = [3] \<and> recv_log w' = [[1, 2], []] \<and> send_log w' = []"
    using recv_remote_close[of unchanged ?c "Some 8", OF opn inia runa _ sela eofa]
    by (simp add: unchanged_def sample_world_def)
  have b: "\<exists>w'. recv unchanged ?c (Some 8) ?wb =
         Some (Inl ConnectionException, ?c\<lparr>socket := None\<rparr>, w') \<and>
         close_log w' = [3] \<and> recv_log w' = [[]] \<and> send_log w' = []"
    using recv_remote_close[of unchanged ?c "Some 8", OF opn inib runb _ selb eofb]
    by (simp add: unchanged_def sample_world_def)
  from a b show ?thesis ..
qed

subsection \<open>The deadline\<close>










subsection \<open>The size bound\<close>

lemma recv_body_bound:
  assumes "recv_inv (Some k) v" and "0 < recv_size v"
  shows "case recv_body c (Some k) endt v w of
           Inl (r, c', w') \<Rightarrow> (case r of Inr bs \<Rightarrow> int (length bs) \<le> k | Inl e \<Rightarrow> True)
         | Inr (v', w') \<Rightarrow> recv_inv (Some k) v' \<and> 0 \<le> recv_size v'"
  using assms
  by (auto simp: recv_body_def recv_inv_def select_select_def time_time_def socket_recv_def
        handle_abrupt_socket_close_def close_def Let_def
      split: select_outcome.splits option.splits if_splits)

lemma recv_loop_bound:
  "recv_loop c sz endt v w = Some y \<Longrightarrow>
   sz = Some k \<longrightarrow> recv_inv sz v \<longrightarrow> 0 \<le> recv_size v \<longrightarrow>
     (case fst y of Inr bs \<Rightarrow> int (length bs) \<le> k | Inl e \<Rightarrow> True)"
proof (induction rule: recv_loop.raw_induct[rotated 1, consumes 1, case_names body])
  case 1: (body recv_loop c sz endt v w y)
  show ?case
  proof (intro impI)
    assume sz: "sz = Some k" and inv: "recv_inv sz v" and nn: "0 \<le> recv_size v"
    show "case fst y of Inr bs \<Rightarrow> int (length bs) \<le> k | Inl e \<Rightarrow> True"
    proof (cases "0 < recv_size v")
      case False
      with nn have z: "recv_size v = 0" by simp
      with 1(2) have "y = (Inr (concat (data v)), c, w)" by simp
      then show ?thesis using inv z sz by (simp add: recv_inv_def)
    next
      case True
      note bb = recv_body_bound[OF inv[unfolded sz] True, of c endt w]
      show ?thesis
      proof (cases "recv_body c sz endt v w")
        case (Inl r)
        with 1(2) True have "y = r" by simp
        with bb Inl sz show ?thesis by (auto split: prod.splits)
      next
        case (Inr p)
        obtain v' w' where p: "p = (v', w')" by (cases p)
        with 1(2) True Inr have "recv_loop c sz endt v' w' = Some y" by simp
        from 1(1)[OF this] bb Inr p sz show ?thesis by simp
      qed
    qed
  qed
qed

text \<open>
  Claim C9. When \<^verbatim>\<open>recv\<close> is called with a positive size and returns bytes, it
  returns at most that many: every read asks for what is still missing, and a read
  never yields more than it was asked for.
\<close>

theorem recv_at_most_size:
  assumes "recv base_recv c0 (Some k) w = Some (Inr bs, c', w')" and "0 < k"
  shows "int (length bs) \<le> k"
proof (cases "socket (base_recv c0 (Some k))")
  case None
  with assms(1) show ?thesis by (simp add: recv_def Let_def)
next
  case (Some s)
  let ?c = "base_recv c0 (Some k)"
  obtain endt v0 w0 where ini: "recv_init ?c s (Some k) w = (endt, v0, w0)"
    by (cases "recv_init ?c s (Some k) w")
  then have v0: "recv_inv (Some k) v0" "0 \<le> recv_size v0"
    using assms(2)
    by (auto simp: recv_init_def recv_inv_def time_time_def Let_def split: prod.splits)
  have "recv_loop ?c (Some k) endt v0 w0 = Some (Inr bs, c', w')"
    using assms(1) Some ini by (simp add: recv_def Let_def)
  from recv_loop_bound[OF this, of k] v0 show ?thesis by simp
qed

lemma sample_recv_two:
  "recv unchanged (sample_client (Some 3) IDLE) (Some 2)
        (sample_world (sconst 0) (sconst Readable) (sconst [1, 2, 3])) =
   Some (Inr [1, 2], sample_client (Some 3) IDLE,
         (sample_world (sconst 0) (sconst Readable) ([3] ## sconst [1, 2, 3]))
           \<lparr>recv_log := [[1, 2]], select_log := [3], nonblocking := [3]\<rparr>)"
  by (simp add: recv_def recv_init_def recv_loop.simps recv_body_def unchanged_def
        sample_client_def sample_world_def socket_setblocking0_def time_time_def
        select_select_def socket_recv_def Let_def)

text \<open>A run of C9: three octets are pending, two are asked for, two are returned.\<close>

theorem recv_at_most_size_witness:
  "recv unchanged (sample_client (Some 3) IDLE) (Some 2)
        (sample_world (sconst 0) (sconst Readable) (sconst [1, 2, 3])) =
   Some (Inr [1, 2], sample_client (Some 3) IDLE,
         (sample_world (sconst 0) (sconst Readable) ([3] ## sconst [1, 2, 3]))
           \<lparr>recv_log := [[1, 2]], select_log := [3], nonblocking := [3]\<rparr>) \<and>
   (0::int) < 2 \<and> int (length [1, 2 :: byte]) \<le> 2"
  using recv_at_most_size[OF sample_recv_two] sample_recv_two by simp

subsection \<open>A client without a socket\<close>

text \<open>
  Claim C8 as stated fails for \<^verbatim>\<open>send\<close>: the inherited \<^verbatim>\<open>send\<close> runs before the
  test for a socket, and the one the library supplies marks the transaction as
  SENDING. On the sample client without a socket, in state IDLE, \<^verbatim>\<open>send\<close> raises
  ConnectionException and leaves a client that differs from the one it was given.
\<close>

theorem closed_client_counterexample:
  "send ModbusBaseClient_send (sample_client None IDLE) [1, 2]
       (sample_world (sconst 0) (sconst Readable) (sconst [1])) =
     (Inl ConnectionException, (sample_client None IDLE)\<lparr>state := SENDING\<rparr>,
      sample_world (sconst 0) (sconst Readable) (sconst [1])) \<and>
   (sample_client None IDLE)\<lparr>state := SENDING\<rparr> \<noteq> sample_client None IDLE"
proof -
  have "state ((sample_client None IDLE)\<lparr>state := SENDING\<rparr>) \<noteq> state (sample_client None IDLE)"
    by (simp add: sample_client_def)
  then have "(sample_client None IDLE)\<lparr>state := SENDING\<rparr> \<noteq> sample_client None IDLE"
    by metis
  then show ?thesis
    by (simp add: send_def ModbusBaseClient_send_def sample_client_def Let_def)
qed

text \<open>
  Claim C8, amended. On a client that holds no socket, \<^verbatim>\<open>send\<close> and \<^verbatim>\<open>recv\<close> raise
  ConnectionException and the world is the same before and after, so nothing was
  written, read, closed or waited for. \<^verbatim>\<open>recv\<close> leaves the client as it was.
  \<^verbatim>\<open>send\<close> leaves the client as the inherited \<^verbatim>\<open>send\<close> returned it: with the one of
  the library, the state becomes SENDING unless the client is retrying, and nothing
  else changes. For any inherited method, the code of \<^verbatim>\<open>ModbusTcpClient\<close> itself
  changes no attribute: when no socket is held after the inherited method, the
  client is the one that method returned.
\<close>

theorem closed_client_raises:
  assumes "socket c = None"
  shows "send ModbusBaseClient_send c request w =
           (Inl ConnectionException,
            (if state c \<noteq> RETRYING then c\<lparr>state := SENDING\<rparr> else c), w) \<and>
         socket (fst (snd (send ModbusBaseClient_send c request w))) = None \<and>
         recv ModbusBaseClient_recv c sz w = Some (Inl ConnectionException, c, w) \<and>
         (socket (base_send c request) = None \<longrightarrow>
            send base_send c request w =
              (Inl ConnectionException, base_send c request, w)) \<and>
         (socket (base_recv c sz) = None \<longrightarrow>
            recv base_recv c sz w = Some (Inl ConnectionException, base_recv c sz, w))"
  using assms
  by (simp add: send_def recv_def ModbusBaseClient_send_def ModbusBaseClient_recv_def Let_def)

text \<open>
  Two runs of the amended C8 on the sample client without a socket: a request of
  two octets in state RETRYING, which leaves the client as it was, and a read of 8
  octets.
\<close>

theorem closed_client_raises_witness:
  "socket (sample_client None RETRYING) = None \<and>
   send ModbusBaseClient_send (sample_client None RETRYING) [1, 2]
       (sample_world (sconst 0) (sconst Readable) (sconst [1])) =
     (Inl ConnectionException, sample_client None RETRYING,
      sample_world (sconst 0) (sconst Readable) (sconst [1])) \<and>
   recv ModbusBaseClient_recv (sample_client None RETRYING) (Some 8)
       (sample_world (sconst 0) (sconst Readable) (sconst [1])) =
     Some (Inl ConnectionException, sample_client None RETRYING,
           sample_world (sconst 0) (sconst Readable) (sconst [1]))"
proof -
  have h: "socket (sample_client None RETRYING) = None"
    by (simp add: sample_client_def)
  have s: "state (sample_client None RETRYING) = RETRYING"
    by (simp add: sample_client_def)
  from closed_client_raises[OF h, of "[1, 2]"
         "sample_world (sconst 0) (sconst Readable) (sconst [1])" "Some 8"
         ModbusBaseClient_send ModbusBaseClient_recv] h s
  show ?thesis by simp
qed

subsection \<open>send\<close>










subsection \<open>connect\<close>



subsection \<open>The default framer\<close>

text \<open>
  Claim C7. Constructing either client without the framer argument is constructing
  it with \<^verbatim>\<open>ModbusSocketFramer\<close>: the base initialiser receives that class, and
  when the base initialiser keeps the class it receives, the framer of the client
  is \<^verbatim>\<open>ModbusSocketFramer\<close>.
\<close>

theorem default_framer_is_socket:
  "ModbusTcpClient_init base_init h p None sa kw =
     ModbusTcpClient_init base_init h p (Some ModbusSocketFramer) sa kw \<and>
   AsyncModbusTcpClient_init base_init h p None sa kw =
     AsyncModbusTcpClient_init base_init h p (Some ModbusSocketFramer) sa kw \<and>
   framer (ModbusTcpClient_init base_init h p None sa kw) =
     framer (base_init ModbusSocketFramer kw) \<and>
   framer (AsyncModbusTcpClient_init base_init h p None sa kw) =
     framer (base_init ModbusSocketFramer kw) \<and>
   ((\<forall>f k. framer (base_init f k) = f) \<longrightarrow>
      framer (ModbusTcpClient_init base_init h p None sa kw) = ModbusSocketFramer \<and>
      framer (AsyncModbusTcpClient_init base_init h p None sa kw) = ModbusSocketFramer)"
  by (simp add: ModbusTcpClient_init_def AsyncModbusTcpClient_init_def Let_def)

theorem default_framer_is_socket_witness:
  "(\<forall>f k. framer (sample_base_init f k) = f) \<and>
   framer (ModbusTcpClient_init sample_base_init ''localhost'' None None None Map.empty) =
     ModbusSocketFramer \<and>
   framer (AsyncModbusTcpClient_init sample_base_init ''localhost'' None None None Map.empty) =
     ModbusSocketFramer"
proof -
  have keep: "\<forall>f k. framer (sample_base_init f k) = f"
    by (simp add: sample_base_init_def)
  from default_framer_is_socket[of sample_base_init "''localhost''" None None Map.empty] keep
  show ?thesis by blast
qed

subsection \<open>The example server\<close>

text \<open>
  Claim C5 as stated fails: \<^verbatim>\<open>run_sync_server\<close> rejects nothing. Asked for the
  serial transport with the TLS framer, it starts the serial server with the TLS
  framer.
\<close>

theorem run_sync_server_counterexample:
  "run_sync_server (\<lambda>n. []) (sample_args ''serial'' ModbusTlsFramer (PyStr ''/dev/ptyp0'')) =
     Inr (StartSerialServer () () (PyStr ''/dev/ptyp0'') ModbusTlsFramer (PyInt 9600))"
  by (simp add: run_sync_server_def sample_args_def)

text \<open>
  Claim C5, amended. For each of the four values of \<^verbatim>\<open>--comm\<close> and every framer,
  \<^verbatim>\<open>run_sync_server\<close> checks nothing: it starts the server that \<^verbatim>\<open>--comm\<close> selects
  and passes the framer to it unchanged.
\<close>

theorem run_sync_server_passes_framer:
  assumes "args_comm a \<in> {''tcp'', ''udp'', ''serial'', ''tls''}"
  shows "\<exists>srv. run_sync_server get_certificate a = Inr srv \<and>
               server_framer srv = args_framer a \<and> server_comm srv = args_comm a"
  using assms by (auto simp: run_sync_server_def Let_def)

theorem run_sync_server_passes_framer_witness:
  "args_comm (sample_args ''tcp'' ModbusRtuFramer (PyInt 5020)) \<in>
     {''tcp'', ''udp'', ''serial'', ''tls''} \<and>
   (\<exists>srv. run_sync_server (\<lambda>n. []) (sample_args ''tcp'' ModbusRtuFramer (PyInt 5020)) = Inr srv \<and>
          server_framer srv = args_framer (sample_args ''tcp'' ModbusRtuFramer (PyInt 5020)) \<and>
          server_comm srv = args_comm (sample_args ''tcp'' ModbusRtuFramer (PyInt 5020)))"
proof -
  have h: "args_comm (sample_args ''tcp'' ModbusRtuFramer (PyInt 5020)) \<in>
     {''tcp'', ''udp'', ''serial'', ''tls''}"
    by (simp add: sample_args_def)
  from run_sync_server_passes_framer[OF h, of "\<lambda>n. []"] h show ?thesis by blast
qed

end
